theory Spec2Isabelle
  imports Main
begin

section \<open>EIP-7702 delegation check (scripts/check-delegation.ts)\<close>

text \<open>
  A shallow embedding of \<^verbatim>\<open>scripts/check-delegation.ts\<close>: the network table, the
  single-address check \<^verbatim>\<open>checkDelegation\<close>, the display wrapper, the batch check
  \<^verbatim>\<open>checkMultipleDelegations\<close> and the command-line entry point.

  Strings are lists of \<^typ>\<open>char\<close>, one character per JavaScript code unit below 256:
  this covers every hex string a chain node returns and every ASCII command-line
  argument. What the script calls but does not define (the process environment, the
  client library and the chain behind it) is a parameter of the model, the record
  \<open>world\<close>. A thrown value is represented by the message that the script's own
  \<^verbatim>\<open>error instanceof Error ? error.message : String(error)\<close> reads off it.
  Reports printed with \<^verbatim>\<open>console.log\<close> are left out; what is printed with
  \<^verbatim>\<open>console.error\<close> and the exit status of the process are part of the model.
\<close>

subsection \<open>String and array primitives of the host language\<close>

definition toLowerChar :: "char \<Rightarrow> char" where
  "toLowerChar c =
     (let n = (of_char c :: nat)
      in if (65 \<le> n \<and> n \<le> 90) \<or> (192 \<le> n \<and> n \<le> 214) \<or> (216 \<le> n \<and> n \<le> 222)
         then char_of (n + 32) else c)"

definition toLowerCase :: "string \<Rightarrow> string" where
  "toLowerCase s = map toLowerChar s"

definition startsWith :: "string \<Rightarrow> string \<Rightarrow> bool" where
  "startsWith s p = (take (length p) s = p)"

text \<open>\<^verbatim>\<open>s.slice(start, end)\<close> for non-negative indices: both are clamped to the length.\<close>

definition slice :: "string \<Rightarrow> nat \<Rightarrow> nat \<Rightarrow> string" where
  "slice s start end' = take (end' - start) (drop start s)"

fun array_join :: "string list \<Rightarrow> string \<Rightarrow> string" where
  "array_join [] sep = []"
| "array_join [x] sep = x"
| "array_join (x # y # ys) sep = x @ sep @ array_join (y # ys) sep"

text \<open>\<^verbatim>\<open>a || b\<close> on an optional string: the empty string is falsy, as \<^verbatim>\<open>undefined\<close> is.\<close>

definition orElse :: "string option \<Rightarrow> string \<Rightarrow> string" where
  "orElse v d = (case v of None \<Rightarrow> d | Some s \<Rightarrow> if s = [] then d else s)"

subsection \<open>Network configurations\<close>

datatype chain = mainnet | sepolia | base | baseSepolia

record network_config =
  chain' :: chain
  rpcUrl :: string

definition DELEGATION_INDICATOR :: string where
  "DELEGATION_INDICATOR = ''0xef0100''"

text \<open>The object literal \<^verbatim>\<open>networks\<close>, its own properties in insertion order.\<close>

definition networks :: "(string \<Rightarrow> string option) \<Rightarrow> (string \<times> network_config) list" where
  "networks env =
     [(''mainnet'',
        \<lparr>chain' = mainnet, rpcUrl = orElse (env ''MAINNET_RPC_URL'') ''https://eth.llamarpc.com''\<rparr>),
      (''sepolia'',
        \<lparr>chain' = sepolia, rpcUrl = orElse (env ''SEPOLIA_RPC_URL'') ''https://rpc.sepolia.org''\<rparr>),
      (''base'',
        \<lparr>chain' = base, rpcUrl = orElse (env ''BASE_RPC_URL'') ''https://mainnet.base.org''\<rparr>),
      (''baseSepolia'',
        \<lparr>chain' = baseSepolia,
         rpcUrl = orElse (env ''BASE_SEPOLIA_RPC_URL'') ''https://sepolia.base.org''\<rparr>)]"

definition Object_keys :: "(string \<times> 'a) list \<Rightarrow> string list" where
  "Object_keys obj = map fst obj"

text \<open>
  \<^verbatim>\<open>networks[networkName]\<close> is a property read on a plain object. A name that is not an
  own property is looked up on \<^verbatim>\<open>Object.prototype\<close>, whose properties are functions
  (and, for \<^verbatim>\<open>__proto__\<close>, the prototype object itself): all of them truthy, none with
  a \<^verbatim>\<open>chain\<close> or an \<^verbatim>\<open>rpcUrl\<close>.
\<close>

definition Object_prototype_keys :: "string list" where
  "Object_prototype_keys =
     [''constructor'', ''__defineGetter__'', ''__defineSetter__'', ''hasOwnProperty'',
      ''__lookupGetter__'', ''__lookupSetter__'', ''isPrototypeOf'', ''propertyIsEnumerable'',
      ''toString'', ''valueOf'', ''__proto__'', ''toLocaleString'']"

datatype 'a property = Own 'a | Inherited | Undefined

definition getProperty :: "(string \<times> 'a) list \<Rightarrow> string \<Rightarrow> 'a property" where
  "getProperty obj name =
     (case map_of obj name of
        Some v \<Rightarrow> Own v
      | None \<Rightarrow> if name \<in> set Object_prototype_keys then Inherited else Undefined)"

text \<open>\<^verbatim>\<open>network.chain\<close> and \<^verbatim>\<open>network.rpcUrl\<close>, \<^verbatim>\<open>undefined\<close> on an inherited value.\<close>

fun chain_of :: "network_config property \<Rightarrow> chain option" where
  "chain_of (Own n) = Some (chain' n)"
| "chain_of _ = None"

fun rpcUrl_of :: "network_config property \<Rightarrow> string option" where
  "rpcUrl_of (Own n) = Some (rpcUrl n)"
| "rpcUrl_of _ = None"

subsection \<open>The world outside the script\<close>

datatype js_error = Error string

text \<open>A client is its \<^verbatim>\<open>getCode\<close>: from an address to the code, \<^verbatim>\<open>undefined\<close> as \<open>None\<close>.\<close>

type_synonym client = "string \<Rightarrow> js_error + string option"

record world =
  env :: "string \<Rightarrow> string option"
  createPublicClient :: "chain option \<Rightarrow> string option \<Rightarrow> js_error + client"

subsection \<open>The single-address check\<close>

record delegation_result =
  isDelegated :: bool
  address :: string
  network :: string
  delegatedTo :: "string option"
  code :: "string option"
  message :: "string option"
  error :: "string option"

definition checkDelegation :: "world \<Rightarrow> string \<Rightarrow> string \<Rightarrow> js_error + delegation_result" where
  "checkDelegation w addr networkName =
     (case getProperty (networks (env w)) networkName of
        Undefined \<Rightarrow>
          Inl (Error (''Unknown network: '' @ networkName @ ''. Available networks: ''
                      @ array_join (Object_keys (networks (env w))) '', ''))
      | net \<Rightarrow>
          (case createPublicClient w (chain_of net) (rpcUrl_of net) of
             Inl e \<Rightarrow> Inl e
           | Inr getCode \<Rightarrow>
               (case getCode addr of
                  Inl (Error m) \<Rightarrow> Inl (Error (''Failed to check delegation: '' @ m))
                | Inr None \<Rightarrow>
                    Inr \<lparr>isDelegated = False, address = addr, network = networkName,
                         delegatedTo = None, code = None,
                         message = Some ''No code at address (EOA or no delegation)'',
                         error = None\<rparr>
                | Inr (Some c) \<Rightarrow>
                    if c = [] \<or> c = ''0x'' then
                      Inr \<lparr>isDelegated = False, address = addr, network = networkName,
                           delegatedTo = None, code = None,
                           message = Some ''No code at address (EOA or no delegation)'',
                           error = None\<rparr>
                    else if startsWith (toLowerCase c) DELEGATION_INDICATOR then
                      (let delegatedAddress = ''0x'' @ slice c 8 48
                       in Inr \<lparr>isDelegated = True, address = addr, network = networkName,
                               delegatedTo = Some delegatedAddress, code = Some c,
                               message = Some (''Address is delegated to '' @ delegatedAddress),
                               error = None\<rparr>)
                    else
                      Inr \<lparr>isDelegated = False, address = addr, network = networkName,
                           delegatedTo = None, code = Some c,
                           message = Some ''Address has code but no EIP-7702 delegation'',
                           error = None\<rparr>)))"

subsection \<open>Display wrapper and batch check\<close>

text \<open>
  Both return what the source returns or throws, paired with the lines they print with
  \<^verbatim>\<open>console.error\<close>.
\<close>

definition displayDelegationInfo ::
  "world \<Rightarrow> string \<Rightarrow> string \<Rightarrow> (js_error + delegation_result) \<times> string list" where
  "displayDelegationInfo w addr networkName =
     (case checkDelegation w addr networkName of
        Inr result \<Rightarrow> (Inr result, [])
      | Inl (Error m) \<Rightarrow> (Inl (Error m), [[CHR 0x0A] @ ''Error: '' @ m]))"

text \<open>
  The \<^verbatim>\<open>for\<close> loop of the batch check: \<open>results\<close> is the array being pushed to,
  \<open>errs\<close> the lines printed so far.
\<close>

fun checkMultipleDelegations_loop ::
  "world \<Rightarrow> string \<Rightarrow> string list \<Rightarrow> delegation_result list \<Rightarrow> string list
   \<Rightarrow> delegation_result list \<times> string list" where
  "checkMultipleDelegations_loop w networkName [] results errs = (results, errs)"
| "checkMultipleDelegations_loop w networkName (addr # rest) results errs =
     (case checkDelegation w addr networkName of
        Inr result \<Rightarrow>
          checkMultipleDelegations_loop w networkName rest (results @ [result]) errs
      | Inl (Error m) \<Rightarrow>
          checkMultipleDelegations_loop w networkName rest
            (results @ [\<lparr>isDelegated = False, address = addr, network = networkName,
                          delegatedTo = None, code = None, message = None,
                          error = Some m\<rparr>])
            (errs @ [addr @ '': Error - '' @ m]))"

definition checkMultipleDelegations ::
  "world \<Rightarrow> string list \<Rightarrow> string \<Rightarrow> delegation_result list \<times> string list" where
  "checkMultipleDelegations w addresses networkName =
     checkMultipleDelegations_loop w networkName addresses [] []"

subsection \<open>Command-line entry point\<close>

definition isHexDigit :: "char \<Rightarrow> bool" where
  "isHexDigit c = (c \<in> set ''abcdefABCDEF0123456789'')"

text \<open>The test \<^verbatim>\<open>/^0x[a-fA-F0-9]{40}$/.test(addr)\<close>.\<close>

definition addressPattern :: "string \<Rightarrow> bool" where
  "addressPattern addr =
     (length addr = 42 \<and> take 2 addr = ''0x'' \<and> list_all isHexDigit (drop 2 addr))"

record cli_outcome =
  exitCode :: nat
  stderr :: "string list"

text \<open>
  The block under \<^verbatim>\<open>require.main === module\<close>, on \<open>args = process.argv.slice(2)\<close>:
  first the constants it computes from a non-empty argument list.
\<close>

definition isNetwork :: "world \<Rightarrow> string list \<Rightarrow> bool" where
  "isNetwork w args = (last args \<in> set (Object_keys (networks (env w))))"

definition cliNetworkName :: "world \<Rightarrow> string list \<Rightarrow> string" where
  "cliNetworkName w args = (if isNetwork w args then last args else ''mainnet'')"

definition cliAddresses :: "world \<Rightarrow> string list \<Rightarrow> string list" where
  "cliAddresses w args = (if isNetwork w args then butlast args else args)"

definition validAddresses :: "world \<Rightarrow> string list \<Rightarrow> string list" where
  "validAddresses w args = filter addressPattern (cliAddresses w args)"

text \<open>
  The filter callback reports each argument it rejects, so these lines come first on the
  error stream, in argument order.
\<close>

definition invalidReports :: "world \<Rightarrow> string list \<Rightarrow> string list" where
  "invalidReports w args =
     map (\<lambda>a. ''Invalid address format: '' @ a)
       (filter (\<lambda>a. \<not> addressPattern a) (cliAddresses w args))"

definition cliMain :: "world \<Rightarrow> string list \<Rightarrow> cli_outcome" where
  "cliMain w args =
     (if args = [] then \<lparr>exitCode = 1, stderr = []\<rparr>
      else if validAddresses w args = [] then
        \<lparr>exitCode = 1, stderr = invalidReports w args @ [''No valid addresses provided'']\<rparr>
      else if length (validAddresses w args) = 1 then
        (case displayDelegationInfo w (hd (validAddresses w args)) (cliNetworkName w args) of
           (Inr result, errs) \<Rightarrow> \<lparr>exitCode = 0, stderr = invalidReports w args @ errs\<rparr>
         | (Inl (Error m), errs) \<Rightarrow>
             \<lparr>exitCode = 1,
              stderr = invalidReports w args @ errs @ [[CHR 0x0A] @ ''Fatal error: '' @ m]\<rparr>)
      else
        (case checkMultipleDelegations w (validAddresses w args) (cliNetworkName w args) of
           (results, errs) \<Rightarrow> \<lparr>exitCode = 0, stderr = invalidReports w args @ errs\<rparr>))"

subsection \<open>Vocabulary for the properties\<close>

text \<open>
  What \<^verbatim>\<open>client.getCode\<close> hands to \<open>checkDelegation\<close> for an address on a network:
  \<open>Some\<close> of the code read (\<open>None\<close> inside for \<^verbatim>\<open>undefined\<close>), and \<open>None\<close> when the check
  throws before or in that call.
\<close>

definition chainRead :: "world \<Rightarrow> string \<Rightarrow> string \<Rightarrow> string option option" where
  "chainRead w addr networkName =
     (case getProperty (networks (env w)) networkName of
        Undefined \<Rightarrow> None
      | net \<Rightarrow>
          (case createPublicClient w (chain_of net) (rpcUrl_of net) of
             Inl e \<Rightarrow> None
           | Inr getCode \<Rightarrow> (case getCode addr of Inl e \<Rightarrow> None | Inr c \<Rightarrow> Some c)))"

text \<open>
  Well-formed hex input in the words of the specification: \<^verbatim>\<open>0x\<close> followed by an even
  number of hex digits. The script has no such test; the predicate only names the inputs
  a property is about.
\<close>

definition spec_validHex :: "string \<Rightarrow> bool" where
  "spec_validHex s =
     (take 2 s = ''0x'' \<and> list_all isHexDigit (drop 2 s) \<and> even (length (drop 2 s)))"

text \<open>
  Example worlds, on which the definitions are run at concrete inputs: no environment
  overrides, a client library that refuses a missing RPC URL (as an HTTP transport does)
  and otherwise answers \<^verbatim>\<open>getCode\<close> with the given function.
\<close>

definition exampleWorld :: "client \<Rightarrow> world" where
  "exampleWorld getCode =
     \<lparr>env = (\<lambda>_. None),
      createPublicClient =
        (\<lambda>c u. case u of
                 None \<Rightarrow> Inl (Error ''No URL was provided to the Transport.'')
               | Some _ \<Rightarrow> Inr getCode)\<rparr>"

definition nodeReturning :: "string option \<Rightarrow> world" where
  "nodeReturning c = exampleWorld (\<lambda>_. Inr c)"

definition nodeFailingAt :: "string \<Rightarrow> string \<Rightarrow> string option \<Rightarrow> world" where
  "nodeFailingAt bad m c = exampleWorld (\<lambda>a. if a = bad then Inl (Error m) else Inr c)"

text \<open>A world whose client library fails on one chain only and answers with the given code elsewhere.\<close>

definition sepoliaDown :: "string option \<Rightarrow> world" where
  "sepoliaDown c =
     \<lparr>env = (\<lambda>_. None),
      createPublicClient =
        (\<lambda>ch u. if ch = Some sepolia then Inl (Error ''sepolia is down'')
                 else Inr (\<lambda>_. Inr c))\<rparr>"

section \<open>Properties\<close>

subsection \<open>The three outcomes of a check whose chain read succeeds\<close>

lemma toLowerCase_length: "length (toLowerCase s) = length s"
  by (simp add: toLowerCase_def)

lemma startsWith_length: "startsWith s p \<Longrightarrow> length p \<le> length s"
proof -
  assume "startsWith s p"
  then have "length (take (length p) s) = length p" by (simp add: startsWith_def)
  then show ?thesis by simp
qed

lemma startsWith_indicator_length:
  "startsWith (toLowerCase c) DELEGATION_INDICATOR \<Longrightarrow> 8 \<le> length c"
  using startsWith_length [of "toLowerCase c" DELEGATION_INDICATOR]
  by (simp add: toLowerCase_length DELEGATION_INDICATOR_def)

lemma checkDelegation_no_code:
  assumes "chainRead w addr n = Some c" and "c = None \<or> c = Some [] \<or> c = Some ''0x''"
  shows "checkDelegation w addr n =
           Inr \<lparr>isDelegated = False, address = addr, network = n, delegatedTo = None,
                code = None, message = Some ''No code at address (EOA or no delegation)'',
                error = None\<rparr>"
  using assms unfolding chainRead_def checkDelegation_def
  by (auto split: property.splits sum.splits option.splits js_error.splits)

lemma checkDelegation_delegated:
  assumes "chainRead w addr n = Some (Some c)"
    and "startsWith (toLowerCase c) DELEGATION_INDICATOR"
  shows "checkDelegation w addr n =
           Inr \<lparr>isDelegated = True, address = addr, network = n,
                delegatedTo = Some (''0x'' @ slice c 8 48), code = Some c,
                message = Some (''Address is delegated to '' @ ''0x'' @ slice c 8 48),
                error = None\<rparr>"
proof -
  from assms(2) have "8 \<le> length c" by (rule startsWith_indicator_length)
  then have ne: "c \<noteq> []" "c \<noteq> ''0x''" by auto
  show ?thesis
    using assms ne unfolding chainRead_def checkDelegation_def
    by (auto simp: Let_def split: property.splits sum.splits option.splits js_error.splits)
qed

lemma checkDelegation_has_code:
  assumes "chainRead w addr n = Some (Some c)" and "c \<noteq> []" and "c \<noteq> ''0x''"
    and "\<not> startsWith (toLowerCase c) DELEGATION_INDICATOR"
  shows "checkDelegation w addr n =
           Inr \<lparr>isDelegated = False, address = addr, network = n, delegatedTo = None,
                code = Some c, message = Some ''Address has code but no EIP-7702 delegation'',
                error = None\<rparr>"
  using assms unfolding chainRead_def checkDelegation_def
  by (auto split: property.splits sum.splits option.splits js_error.splits)

lemma slice_8_48: "slice c 8 48 = take 40 (drop 8 c)"
  by (simp add: slice_def)

lemma getProperty_mainnet:
  "getProperty (networks e) ''mainnet'' =
     Own \<lparr>chain' = mainnet,
          rpcUrl = orElse (e ''MAINNET_RPC_URL'') ''https://eth.llamarpc.com''\<rparr>"
  by (simp add: getProperty_def networks_def)

lemma chainRead_nodeReturning: "chainRead (nodeReturning c) addr ''mainnet'' = Some c"
  by (simp add: chainRead_def nodeReturning_def exampleWorld_def getProperty_mainnet)

lemma chainRead_nodeFailingAt:
  "chainRead (nodeFailingAt bad m c) addr ''mainnet'' = (if addr = bad then None else Some c)"
  by (simp add: chainRead_def nodeFailingAt_def exampleWorld_def getProperty_mainnet)

subsection \<open>Codes that carry the indicator and a full address\<close>

text \<open>
  Claim C2. For every code made of a prefix that reads \<^verbatim>\<open>0xef0100\<close> once lowercased,
  followed by exactly 40 characters, the check returns \<open>isDelegated = True\<close> and
  \<open>delegatedTo\<close> equal to \<^verbatim>\<open>0x\<close> followed by those 40 characters, unchanged. The
  characters need not even be hex digits. The witness is the scenario of the
  specification, code \<^verbatim>\<open>0xef0100d8da6bf26964af9d7eed9e03e53415d37aa96045\<close>, and the
  same code in upper case.
\<close>

theorem C2_delegated_forty_chars:
  assumes "chainRead w addr n = Some (Some (pre @ body))"
    and "toLowerCase pre = ''0xef0100''"
    and "length body = 40"
  shows "checkDelegation w addr n =
           Inr \<lparr>isDelegated = True, address = addr, network = n,
                delegatedTo = Some (''0x'' @ body), code = Some (pre @ body),
                message = Some (''Address is delegated to 0x'' @ body), error = None\<rparr>"
proof -
  have len: "length pre = 8"
    using assms(2) toLowerCase_length [of pre] by simp
  have "toLowerCase (pre @ body) = DELEGATION_INDICATOR @ toLowerCase body"
    using assms(2) by (simp add: toLowerCase_def DELEGATION_INDICATOR_def)
  then have sw: "startsWith (toLowerCase (pre @ body)) DELEGATION_INDICATOR"
    by (simp add: startsWith_def)
  have sl: "slice (pre @ body) 8 48 = body"
    using len assms(3) by (simp add: slice_def)
  show ?thesis
    using checkDelegation_delegated [OF assms(1) sw] by (simp add: sl)
qed

theorem C2_scenario:
  "checkDelegation (nodeReturning (Some ''0xef0100d8da6bf26964af9d7eed9e03e53415d37aa96045''))
     ''0x742d35Cc6634C0532925a3b844Bc9e7595f0bEb0'' ''mainnet'' =
   Inr \<lparr>isDelegated = True, address = ''0x742d35Cc6634C0532925a3b844Bc9e7595f0bEb0'',
        network = ''mainnet'',
        delegatedTo = Some ''0xd8da6bf26964af9d7eed9e03e53415d37aa96045'',
        code = Some ''0xef0100d8da6bf26964af9d7eed9e03e53415d37aa96045'',
        message = Some ''Address is delegated to 0xd8da6bf26964af9d7eed9e03e53415d37aa96045'',
        error = None\<rparr>
   \<and> checkDelegation (nodeReturning (Some ''0XEF0100D8DA6BF26964AF9D7EED9E03E53415D37AA96045''))
       ''0x742d35Cc6634C0532925a3b844Bc9e7595f0bEb0'' ''mainnet'' =
     Inr \<lparr>isDelegated = True, address = ''0x742d35Cc6634C0532925a3b844Bc9e7595f0bEb0'',
          network = ''mainnet'',
          delegatedTo = Some ''0xD8DA6BF26964AF9D7EED9E03E53415D37AA96045'',
          code = Some ''0XEF0100D8DA6BF26964AF9D7EED9E03E53415D37AA96045'',
          message = Some ''Address is delegated to 0xD8DA6BF26964AF9D7EED9E03E53415D37AA96045'',
          error = None\<rparr>"
proof -
  have l: "toLowerCase ''0xef0100'' = ''0xef0100''" and u: "toLowerCase ''0XEF0100'' = ''0xef0100''"
    by code_simp+
  show ?thesis
    using
      C2_delegated_forty_chars
        [of "nodeReturning (Some ''0xef0100d8da6bf26964af9d7eed9e03e53415d37aa96045'')"
          "''0x742d35Cc6634C0532925a3b844Bc9e7595f0bEb0''" "''mainnet''"
          "''0xef0100''" "''d8da6bf26964af9d7eed9e03e53415d37aa96045''"]
      C2_delegated_forty_chars
        [of "nodeReturning (Some ''0XEF0100D8DA6BF26964AF9D7EED9E03E53415D37AA96045'')"
          "''0x742d35Cc6634C0532925a3b844Bc9e7595f0bEb0''" "''mainnet''"
          "''0XEF0100''" "''D8DA6BF26964AF9D7EED9E03E53415D37AA96045''"]
      l u
    by (simp add: chainRead_nodeReturning)
qed

subsection \<open>The empty-code marker\<close>

text \<open>
  Claim C4. When the code read is absent, the empty string or \<^verbatim>\<open>0x\<close>, the check returns
  \<open>isDelegated = False\<close> with neither a \<open>delegatedTo\<close> nor a \<open>code\<close> field, and the message
  \<^verbatim>\<open>No code at address (EOA or no delegation)\<close>.
\<close>

theorem C4_empty_code:
  assumes "chainRead w addr n = Some c" and "c = None \<or> c = Some [] \<or> c = Some ''0x''"
  shows "checkDelegation w addr n =
           Inr \<lparr>isDelegated = False, address = addr, network = n, delegatedTo = None,
                code = None, message = Some ''No code at address (EOA or no delegation)'',
                error = None\<rparr>"
  using assms by (rule checkDelegation_no_code)

theorem C4_empty_code_witness:
  "checkDelegation (nodeReturning (Some ''0x'')) ''0x742d35Cc6634C0532925a3b844Bc9e7595f0bEb0'' ''mainnet'' =
           Inr \<lparr>isDelegated = False, address = ''0x742d35Cc6634C0532925a3b844Bc9e7595f0bEb0'', network = ''mainnet'', delegatedTo = None,
                code = None, message = Some ''No code at address (EOA or no delegation)'',
                error = None\<rparr>
  \<and> checkDelegation (nodeReturning (Some [])) ''0x742d35Cc6634C0532925a3b844Bc9e7595f0bEb0'' ''mainnet'' =
           Inr \<lparr>isDelegated = False, address = ''0x742d35Cc6634C0532925a3b844Bc9e7595f0bEb0'', network = ''mainnet'', delegatedTo = None,
                code = None, message = Some ''No code at address (EOA or no delegation)'',
                error = None\<rparr>
  \<and> checkDelegation (nodeReturning None) ''0x742d35Cc6634C0532925a3b844Bc9e7595f0bEb0'' ''mainnet'' =
           Inr \<lparr>isDelegated = False, address = ''0x742d35Cc6634C0532925a3b844Bc9e7595f0bEb0'', network = ''mainnet'', delegatedTo = None,
                code = None, message = Some ''No code at address (EOA or no delegation)'',
                error = None\<rparr>"
  using C4_empty_code [of "nodeReturning (Some ''0x'')" "''0x742d35Cc6634C0532925a3b844Bc9e7595f0bEb0''" "''mainnet''" "Some ''0x''"]
    C4_empty_code [of "nodeReturning (Some [])" "''0x742d35Cc6634C0532925a3b844Bc9e7595f0bEb0''" "''mainnet''" "Some []"]
    C4_empty_code [of "nodeReturning None" "''0x742d35Cc6634C0532925a3b844Bc9e7595f0bEb0''" "''mainnet''" "None"]
  by (simp add: chainRead_nodeReturning)

subsection \<open>Code without the indicator\<close>

text \<open>
  Claim C5. For every code \<^verbatim>\<open>0x\<close> followed by a non-empty body that does not start with
  \<^verbatim>\<open>ef0100\<close> once lowercased, the check returns \<open>isDelegated = False\<close>, keeps the whole raw
  code in the result and gives no \<open>delegatedTo\<close>.
\<close>

theorem C5_code_without_indicator:
  assumes "chainRead w addr n = Some (Some (''0x'' @ body))"
    and "body \<noteq> []"
    and "\<not> startsWith (toLowerCase body) ''ef0100''"
  shows "checkDelegation w addr n =
           Inr \<lparr>isDelegated = False, address = addr, network = n, delegatedTo = None,
                code = Some (''0x'' @ body),
                message = Some ''Address has code but no EIP-7702 delegation'',
                error = None\<rparr>"
proof -
  have "toLowerCase (''0x'' @ body) = ''0x'' @ toLowerCase body"
    by (simp add: toLowerCase_def toLowerChar_def)
  then have "\<not> startsWith (toLowerCase (''0x'' @ body)) DELEGATION_INDICATOR"
    using assms(3) by (simp add: startsWith_def DELEGATION_INDICATOR_def)
  then show ?thesis
    using checkDelegation_has_code [OF assms(1)] assms(2) by simp
qed

theorem C5_code_without_indicator_witness:
  "checkDelegation (nodeReturning (Some ''0x6080604052'')) ''0x742d35Cc6634C0532925a3b844Bc9e7595f0bEb0'' ''mainnet'' =
           Inr \<lparr>isDelegated = False, address = ''0x742d35Cc6634C0532925a3b844Bc9e7595f0bEb0'', network = ''mainnet'', delegatedTo = None,
                code = Some ''0x6080604052'',
                message = Some ''Address has code but no EIP-7702 delegation'',
                error = None\<rparr>"
proof -
  have l: "\<not> startsWith (toLowerCase ''6080604052'') ''ef0100''" by code_simp
  show ?thesis
    using C5_code_without_indicator [of "nodeReturning (Some ''0x6080604052'')" "''0x742d35Cc6634C0532925a3b844Bc9e7595f0bEb0''" "''mainnet''" "''6080604052''"] l
    by (simp add: chainRead_nodeReturning)
qed

subsection \<open>Designators shorter than 23 bytes\<close>

text \<open>
  Claim C10. For every code that starts with the indicator once lowercased and has fewer
  than 48 characters, the check still returns \<open>isDelegated = True\<close>; \<open>delegatedTo\<close> is
  \<^verbatim>\<open>0x\<close> followed by whatever sits from position 8 on, fewer than 40 characters. Neither
  the length nor the characters are tested: the witness extracts \<^verbatim>\<open>zz9\<close>.
\<close>

theorem C10_short_designator:
  assumes "chainRead w addr n = Some (Some c)"
    and "startsWith (toLowerCase c) DELEGATION_INDICATOR"
    and "length c < 48"
  shows "checkDelegation w addr n =
           Inr \<lparr>isDelegated = True, address = addr, network = n,
                delegatedTo = Some (''0x'' @ drop 8 c), code = Some c,
                message = Some (''Address is delegated to 0x'' @ drop 8 c), error = None\<rparr>
         \<and> length (drop 8 c) < 40"
proof -
  have "8 \<le> length c" using assms(2) by (rule startsWith_indicator_length)
  have sl: "slice c 8 48 = drop 8 c"
    using assms(3) by (simp add: slice_def)
  have "length (drop 8 c) < 40" using assms(3) \<open>8 \<le> length c\<close> by simp
  then show ?thesis
    using checkDelegation_delegated [OF assms(1,2)] by (simp add: sl)
qed

theorem C10_short_designator_witness:
  "checkDelegation (nodeReturning (Some ''0xEF0100zz9'')) ''0x742d35Cc6634C0532925a3b844Bc9e7595f0bEb0'' ''mainnet'' =
           Inr \<lparr>isDelegated = True, address = ''0x742d35Cc6634C0532925a3b844Bc9e7595f0bEb0'', network = ''mainnet'',
                delegatedTo = Some ''0xzz9'', code = Some ''0xEF0100zz9'',
                message = Some ''Address is delegated to 0xzz9'', error = None\<rparr>"
proof -
  have l: "startsWith (toLowerCase ''0xEF0100zz9'') DELEGATION_INDICATOR" by code_simp
  show ?thesis
    using C10_short_designator [of "nodeReturning (Some ''0xEF0100zz9'')" "''0x742d35Cc6634C0532925a3b844Bc9e7595f0bEb0''" "''mainnet''" "''0xEF0100zz9''"] l
    by (simp add: chainRead_nodeReturning)
qed

subsection \<open>The invariant of a result\<close>

text \<open>
  Claim C1, as amended. Whenever the chain read succeeds the check returns a result. If
  \<open>isDelegated\<close> is true, the code starts with the indicator once lowercased and
  \<open>delegatedTo\<close> is present: it is \<^verbatim>\<open>0x\<close> followed by the characters at positions 8 to 47
  of the code, which are exactly 40 when the code has at least 48 characters. If the code
  is absent, empty, \<^verbatim>\<open>0x\<close>, or does not start with the indicator once lowercased, then
  \<open>isDelegated\<close> is false and \<open>delegatedTo\<close> is absent.
\<close>

theorem C1_delegate_is_slice:
  assumes "chainRead w addr n = Some c"
  shows "\<exists>r. checkDelegation w addr n = Inr r
           \<and> (isDelegated r \<longrightarrow>
                (\<exists>s. c = Some s \<and> startsWith (toLowerCase s) DELEGATION_INDICATOR
                      \<and> delegatedTo r = Some (''0x'' @ take 40 (drop 8 s))
                      \<and> (48 \<le> length s \<longrightarrow> length (take 40 (drop 8 s)) = 40)))
           \<and> (c = None \<or> c = Some [] \<or> c = Some ''0x''
                \<or> (\<exists>s. c = Some s \<and> \<not> startsWith (toLowerCase s) DELEGATION_INDICATOR)
               \<longrightarrow> \<not> isDelegated r \<and> delegatedTo r = None)"
proof (cases "c = None \<or> c = Some [] \<or> c = Some ''0x''")
  case True
  then show ?thesis
    using checkDelegation_no_code [OF assms True] by simp
next
  case False
  then obtain s where s: "c = Some s" "s \<noteq> []" "s \<noteq> ''0x''" by auto
  show ?thesis
  proof (cases "startsWith (toLowerCase s) DELEGATION_INDICATOR")
    case True
    show ?thesis
      using checkDelegation_delegated [OF assms [unfolded s(1)] True] s True
      by (simp add: slice_8_48)
  next
    case False
    show ?thesis
      using checkDelegation_has_code [OF assms [unfolded s(1)] s(2,3) False] s
      by simp
  qed
qed

theorem C1_witness:
  "\<exists>r. checkDelegation
          (nodeReturning (Some ''0xEF0100d8da6bf26964af9d7eed9e03e53415d37aa96045ff''))
          ''0x742d35Cc6634C0532925a3b844Bc9e7595f0bEb0'' ''mainnet'' = Inr r
       \<and> isDelegated r
       \<and> delegatedTo r = Some ''0xd8da6bf26964af9d7eed9e03e53415d37aa96045''"
proof -
  let ?s = "''0xEF0100d8da6bf26964af9d7eed9e03e53415d37aa96045ff''"
  have l: "startsWith (toLowerCase ?s) DELEGATION_INDICATOR" by code_simp
  have d: "isDelegated (projr (checkDelegation (nodeReturning (Some ?s)) ''0x742d35Cc6634C0532925a3b844Bc9e7595f0bEb0'' ''mainnet''))"
    using checkDelegation_delegated [OF chainRead_nodeReturning l, of "''0x742d35Cc6634C0532925a3b844Bc9e7595f0bEb0''"] by simp
  from C1_delegate_is_slice [OF chainRead_nodeReturning, of "Some ?s" "''0x742d35Cc6634C0532925a3b844Bc9e7595f0bEb0''"]
  obtain r where r: "checkDelegation (nodeReturning (Some ?s)) ''0x742d35Cc6634C0532925a3b844Bc9e7595f0bEb0'' ''mainnet'' = Inr r"
    and i: "isDelegated r \<longrightarrow>
              (\<exists>s. Some ?s = Some s \<and> startsWith (toLowerCase s) DELEGATION_INDICATOR
                    \<and> delegatedTo r = Some (''0x'' @ take 40 (drop 8 s))
                    \<and> (48 \<le> length s \<longrightarrow> length (take 40 (drop 8 s)) = 40))"
    by blast
  from d r have "isDelegated r" by simp
  with i have "delegatedTo r = Some (''0x'' @ take 40 (drop 8 ?s))" by auto
  then have "delegatedTo r = Some ''0xd8da6bf26964af9d7eed9e03e53415d37aa96045''" by simp
  with r \<open>isDelegated r\<close> show ?thesis by blast
qed

text \<open>
  The claim as first stated asks for exactly 20 bytes after the indicator. A code with a
  single byte after the indicator is reported as delegated to that one byte.
\<close>

theorem C1_counterexample:
  "checkDelegation (nodeReturning (Some ''0xef0100ab'')) ''0x742d35Cc6634C0532925a3b844Bc9e7595f0bEb0'' ''mainnet'' =
     Inr \<lparr>isDelegated = True, address = ''0x742d35Cc6634C0532925a3b844Bc9e7595f0bEb0'', network = ''mainnet'',
          delegatedTo = Some ''0xab'', code = Some ''0xef0100ab'',
          message = Some ''Address is delegated to 0xab'', error = None\<rparr>
   \<and> length ''ab'' < 40"
proof -
  have l: "startsWith (toLowerCase ''0xef0100ab'') DELEGATION_INDICATOR" by code_simp
  show ?thesis
    using checkDelegation_delegated [OF chainRead_nodeReturning l, of "''0x742d35Cc6634C0532925a3b844Bc9e7595f0bEb0''"]
    by (simp add: slice_def)
qed

subsection \<open>Input that is not well-formed hex\<close>

text \<open>
  Claim C3, as amended. For every code that is not well-formed hex the check does not
  fail: it has no hex validation and runs the same pattern matching as on any other
  string. The empty string gives the no-code result; a code that starts with the
  indicator once lowercased gives a delegated result with the characters at positions 8
  to 47 as delegate; every other one gives the not-delegated result with the raw code
  kept.
\<close>

theorem C3_no_validation:
  assumes "chainRead w addr n = Some (Some c)" and "\<not> spec_validHex c"
  shows "checkDelegation w addr n =
           Inr (if c = [] then
                  \<lparr>isDelegated = False, address = addr, network = n, delegatedTo = None,
                   code = None, message = Some ''No code at address (EOA or no delegation)'',
                   error = None\<rparr>
                else if startsWith (toLowerCase c) DELEGATION_INDICATOR then
                  \<lparr>isDelegated = True, address = addr, network = n,
                   delegatedTo = Some (''0x'' @ take 40 (drop 8 c)), code = Some c,
                   message = Some (''Address is delegated to 0x'' @ take 40 (drop 8 c)),
                   error = None\<rparr>
                else
                  \<lparr>isDelegated = False, address = addr, network = n, delegatedTo = None,
                   code = Some c,
                   message = Some ''Address has code but no EIP-7702 delegation'',
                   error = None\<rparr>)"
proof -
  have ne: "c \<noteq> ''0x''" using assms(2) by (auto simp: spec_validHex_def)
  show ?thesis
  proof (cases "c = []")
    case True
    then show ?thesis using checkDelegation_no_code [OF assms(1)] by simp
  next
    case False
    show ?thesis
    proof (cases "startsWith (toLowerCase c) DELEGATION_INDICATOR")
      case True
      then show ?thesis
        using checkDelegation_delegated [OF assms(1) True] False by (simp add: slice_8_48)
    next
      case nsw: False
      then show ?thesis
        using checkDelegation_has_code [OF assms(1) False ne nsw] False by simp
    qed
  qed
qed

theorem C3_witness:
  "checkDelegation (nodeReturning (Some ''0xEF0100zz'')) ''0x742d35Cc6634C0532925a3b844Bc9e7595f0bEb0'' ''mainnet'' =
       Inr \<lparr>isDelegated = True, address = ''0x742d35Cc6634C0532925a3b844Bc9e7595f0bEb0'', network = ''mainnet'',
            delegatedTo = Some ''0xzz'', code = Some ''0xEF0100zz'',
            message = Some ''Address is delegated to 0xzz'', error = None\<rparr>"
proof -
  have v: "\<not> spec_validHex ''0xEF0100zz''"
    by (simp add: spec_validHex_def isHexDigit_def)
  have l: "startsWith (toLowerCase ''0xEF0100zz'') DELEGATION_INDICATOR" by code_simp
  show ?thesis
    using C3_no_validation [OF chainRead_nodeReturning v, of "''0x742d35Cc6634C0532925a3b844Bc9e7595f0bEb0''"] l
    by simp
qed

text \<open>
  The claim as first stated asks for a failure on such input. A code with characters that
  are no hex digits, and one with an odd number of digits, both come back as results.
\<close>

theorem C3_counterexample:
  "\<not> spec_validHex ''0xzz'' \<and> \<not> spec_validHex ''0xabc''
   \<and> checkDelegation (nodeReturning (Some ''0xzz'')) ''0x742d35Cc6634C0532925a3b844Bc9e7595f0bEb0'' ''mainnet'' =
       Inr \<lparr>isDelegated = False, address = ''0x742d35Cc6634C0532925a3b844Bc9e7595f0bEb0'', network = ''mainnet'', delegatedTo = None,
            code = Some ''0xzz'', message = Some ''Address has code but no EIP-7702 delegation'',
            error = None\<rparr>
   \<and> checkDelegation (nodeReturning (Some ''0xabc'')) ''0x742d35Cc6634C0532925a3b844Bc9e7595f0bEb0'' ''mainnet'' =
       Inr \<lparr>isDelegated = False, address = ''0x742d35Cc6634C0532925a3b844Bc9e7595f0bEb0'', network = ''mainnet'', delegatedTo = None,
            code = Some ''0xabc'', message = Some ''Address has code but no EIP-7702 delegation'',
            error = None\<rparr>"
proof -
  have v: "\<not> spec_validHex ''0xzz''" "\<not> spec_validHex ''0xabc''"
    by (simp_all add: spec_validHex_def isHexDigit_def)
  have l: "\<not> startsWith (toLowerCase ''0xzz'') DELEGATION_INDICATOR"
    "\<not> startsWith (toLowerCase ''0xabc'') DELEGATION_INDICATOR" by code_simp+
  show ?thesis
    using v checkDelegation_has_code [OF chainRead_nodeReturning _ _ l(1), of "''0x742d35Cc6634C0532925a3b844Bc9e7595f0bEb0''"]
      checkDelegation_has_code [OF chainRead_nodeReturning _ _ l(2), of "''0x742d35Cc6634C0532925a3b844Bc9e7595f0bEb0''"]
    by simp
qed

subsection \<open>The batch check\<close>

lemma loop_results:
  "fst (checkMultipleDelegations_loop w n addresses results errs) =
     results @ map (\<lambda>addr. case checkDelegation w addr n of
                              Inr result \<Rightarrow> result
                            | Inl (Error m) \<Rightarrow>
                                \<lparr>isDelegated = False, address = addr, network = n,
                                 delegatedTo = None, code = None, message = None,
                                 error = Some m\<rparr>) addresses"
proof (induction addresses arbitrary: results errs)
  case Nil
  then show ?case by simp
next
  case (Cons a as)
  then show ?case
    by (simp split: sum.splits js_error.splits)
qed

lemma checkDelegation_address:
  "checkDelegation w addr n = Inr r \<Longrightarrow> address r = addr"
  unfolding checkDelegation_def
  by (auto simp: Let_def split: property.splits sum.splits option.splits js_error.splits if_splits)

lemma batch_addresses:
  "map address (fst (checkMultipleDelegations w addresses n)) = addresses"
proof -
  have "map address (map (\<lambda>addr. case checkDelegation w addr n of
                              Inr result \<Rightarrow> result
                            | Inl (Error m) \<Rightarrow>
                                \<lparr>isDelegated = False, address = addr, network = n,
                                 delegatedTo = None, code = None, message = None,
                                 error = Some m\<rparr>) addresses) = addresses"
    by (induction addresses)
       (auto split: sum.splits js_error.splits dest: checkDelegation_address)
  then show ?thesis
    by (simp add: checkMultipleDelegations_def loop_results)
qed

text \<open>
  Claim C6. For every list of \<open>N\<close> addresses the batch check returns \<open>N\<close> results, and the
  result at index \<open>i\<close> carries the address at index \<open>i\<close> of the input.
\<close>

theorem C6_batch_order:
  "length (fst (checkMultipleDelegations w addresses n)) = length addresses
   \<and> (\<forall>i < length addresses.
         address (fst (checkMultipleDelegations w addresses n) ! i) = addresses ! i)"
proof -
  let ?out = "fst (checkMultipleDelegations w addresses n)"
  have m: "map address ?out = addresses" by (rule batch_addresses)
  then have len: "length ?out = length addresses"
    by (metis length_map)
  have "\<forall>i < length addresses. address (?out ! i) = addresses ! i"
  proof (intro allI impI)
    fix i assume "i < length addresses"
    then have "i < length ?out" using len by simp
    then have "map address ?out ! i = address (?out ! i)" by (rule nth_map)
    then show "address (?out ! i) = addresses ! i" using m by simp
  qed
  with len show ?thesis by blast
qed

theorem C6_witness:
  "length (fst (checkMultipleDelegations (nodeFailingAt ''0xd8da6bf26964af9d7eed9e03e53415d37aa96045'' ''timeout'' (Some ''0x''))
          [''0x742d35Cc6634C0532925a3b844Bc9e7595f0bEb0'', ''0xd8da6bf26964af9d7eed9e03e53415d37aa96045'', ''0x0000000000000000000000000000000000000000''] ''mainnet'')) = 3
   \<and> address (fst (checkMultipleDelegations (nodeFailingAt ''0xd8da6bf26964af9d7eed9e03e53415d37aa96045'' ''timeout'' (Some ''0x''))
          [''0x742d35Cc6634C0532925a3b844Bc9e7595f0bEb0'', ''0xd8da6bf26964af9d7eed9e03e53415d37aa96045'', ''0x0000000000000000000000000000000000000000''] ''mainnet'') ! 1) = ''0xd8da6bf26964af9d7eed9e03e53415d37aa96045''"
  using C6_batch_order [of "nodeFailingAt ''0xd8da6bf26964af9d7eed9e03e53415d37aa96045'' ''timeout'' (Some ''0x'')"
      "[''0x742d35Cc6634C0532925a3b844Bc9e7595f0bEb0'', ''0xd8da6bf26964af9d7eed9e03e53415d37aa96045'', ''0x0000000000000000000000000000000000000000'']" "''mainnet''"]
  by auto

text \<open>
  Claim C7. The result list is the input list mapped through the single-address check:
  each entry is what \<open>checkDelegation\<close> returns for its own address, or, when that check
  throws, an entry for that address holding the error message. So an entry depends on no
  other address of the batch, and a failure neither aborts the batch nor changes any
  other entry. In the witness the second of three addresses meets a transport error.
\<close>

theorem C7_partial_failure:
  "fst (checkMultipleDelegations w addresses n) =
     map (\<lambda>addr. case checkDelegation w addr n of
                   Inr result \<Rightarrow> result
                 | Inl (Error m) \<Rightarrow>
                     \<lparr>isDelegated = False, address = addr, network = n,
                      delegatedTo = None, code = None, message = None,
                      error = Some m\<rparr>) addresses"
  by (simp add: checkMultipleDelegations_def loop_results)

lemma checkDelegation_nodeFailingAt:
  "checkDelegation (nodeFailingAt bad m c) bad ''mainnet'' =
     Inl (Error (''Failed to check delegation: '' @ m))"
  by (simp add: checkDelegation_def nodeFailingAt_def exampleWorld_def getProperty_mainnet)

theorem C7_witness:
  "fst (checkMultipleDelegations (nodeFailingAt ''0xd8da6bf26964af9d7eed9e03e53415d37aa96045'' ''timeout'' (Some ''0x''))
          [''0x742d35Cc6634C0532925a3b844Bc9e7595f0bEb0'', ''0xd8da6bf26964af9d7eed9e03e53415d37aa96045'', ''0x0000000000000000000000000000000000000000''] ''mainnet'') =
     [\<lparr>isDelegated = False, address = ''0x742d35Cc6634C0532925a3b844Bc9e7595f0bEb0'', network = ''mainnet'', delegatedTo = None,
       code = None, message = Some ''No code at address (EOA or no delegation)'',
       error = None\<rparr>,
      \<lparr>isDelegated = False, address = ''0xd8da6bf26964af9d7eed9e03e53415d37aa96045'', network = ''mainnet'', delegatedTo = None,
       code = None, message = None,
       error = Some ''Failed to check delegation: timeout''\<rparr>,
      \<lparr>isDelegated = False, address = ''0x0000000000000000000000000000000000000000'', network = ''mainnet'', delegatedTo = None,
       code = None, message = Some ''No code at address (EOA or no delegation)'',
       error = None\<rparr>]"
proof -
  let ?w = "nodeFailingAt ''0xd8da6bf26964af9d7eed9e03e53415d37aa96045'' ''timeout'' (Some ''0x'')"
  have a: "checkDelegation ?w ''0x742d35Cc6634C0532925a3b844Bc9e7595f0bEb0'' ''mainnet'' =
             Inr \<lparr>isDelegated = False, address = ''0x742d35Cc6634C0532925a3b844Bc9e7595f0bEb0'', network = ''mainnet'',
                  delegatedTo = None, code = None,
                  message = Some ''No code at address (EOA or no delegation)'', error = None\<rparr>"
    by (rule checkDelegation_no_code [where c = "Some ''0x''"])
       (simp_all add: chainRead_nodeFailingAt)
  have c: "checkDelegation ?w ''0x0000000000000000000000000000000000000000'' ''mainnet'' =
             Inr \<lparr>isDelegated = False, address = ''0x0000000000000000000000000000000000000000'', network = ''mainnet'',
                  delegatedTo = None, code = None,
                  message = Some ''No code at address (EOA or no delegation)'', error = None\<rparr>"
    by (rule checkDelegation_no_code [where c = "Some ''0x''"])
       (simp_all add: chainRead_nodeFailingAt)
  have b: "checkDelegation ?w ''0xd8da6bf26964af9d7eed9e03e53415d37aa96045'' ''mainnet'' =
             Inl (Error (''Failed to check delegation: '' @ ''timeout''))"
    by (rule checkDelegation_nodeFailingAt)
  show ?thesis
    using C7_partial_failure [of ?w "[''0x742d35Cc6634C0532925a3b844Bc9e7595f0bEb0'', ''0xd8da6bf26964af9d7eed9e03e53415d37aa96045'', ''0x0000000000000000000000000000000000000000'']" "''mainnet''"]
    by (simp add: a b c)
qed

subsection \<open>The network guard\<close>

lemma Object_keys_networks:
  "Object_keys (networks e) = [''mainnet'', ''sepolia'', ''base'', ''baseSepolia'']"
  by (simp add: Object_keys_def networks_def)

lemma getProperty_networks:
  "getProperty (networks e) name =
     (if name \<in> set (Object_keys (networks e)) then
        (case map_of (networks e) name of Some v \<Rightarrow> Own v | None \<Rightarrow> Undefined)
      else if name \<in> set Object_prototype_keys then Inherited else Undefined)"
  by (auto simp: getProperty_def Object_keys_def networks_def)

lemma unknown_network:
  assumes "name \<notin> set (Object_keys (networks (env w)))" and "name \<notin> set Object_prototype_keys"
  shows "checkDelegation w addr name =
           Inl (Error (''Unknown network: '' @ name
                       @ ''. Available networks: mainnet, sepolia, base, baseSepolia''))"
proof -
  have "getProperty (networks (env w)) name = Undefined"
    using assms by (simp add: getProperty_networks)
  then show ?thesis
    by (simp add: checkDelegation_def Object_keys_networks)
qed

lemma known_network:
  assumes "name \<in> set (Object_keys (networks (env w)))"
  shows "\<exists>v. getProperty (networks (env w)) name = Own v"
  using assms by (auto simp: getProperty_def Object_keys_def networks_def)

lemma getProperty_constructor: "getProperty (networks e) ''constructor'' = Inherited"
  by (simp add: getProperty_def networks_def Object_prototype_keys_def)

text \<open>
  Claim C8 holds for every name outside \<^verbatim>\<open>Object.prototype\<close> (\<open>unknown_network\<close>,
  \<open>known_network\<close>), and fails for the names inherited from it. The name
  \<^verbatim>\<open>constructor\<close> is none of the four networks, yet the guard \<^verbatim>\<open>!network\<close> lets it
  through: the client library is called with neither chain nor URL, and what it throws
  reaches the caller in place of the unknown-network error.
\<close>

theorem C8_inherited_name:
  assumes "createPublicClient w None None = Inl e"
  shows "''constructor'' \<notin> set (Object_keys (networks (env w)))
         \<and> checkDelegation w addr ''constructor'' = Inl e"
  using assms
  by (simp add: checkDelegation_def getProperty_constructor Object_keys_networks)

theorem C8_inherited_name_witness:
  "checkDelegation (nodeReturning (Some ''0x'')) ''0x742d35Cc6634C0532925a3b844Bc9e7595f0bEb0'' ''constructor'' =
     Inl (Error ''No URL was provided to the Transport.'')"
  using C8_inherited_name [of "nodeReturning (Some ''0x'')"
      "Error ''No URL was provided to the Transport.''" "''0x742d35Cc6634C0532925a3b844Bc9e7595f0bEb0''"]
  by (simp add: nodeReturning_def exampleWorld_def)

subsection \<open>Command line\<close>

lemma addressPattern_iff:
  "addressPattern a = (\<exists>body. a = ''0x'' @ body \<and> length body = 40 \<and> list_all isHexDigit body)"
proof
  assume p: "addressPattern a"
  then have "a = take 2 a @ drop 2 a" by simp
  with p have "a = ''0x'' @ drop 2 a \<and> length (drop 2 a) = 40 \<and> list_all isHexDigit (drop 2 a)"
    by (simp add: addressPattern_def)
  then show "\<exists>body. a = ''0x'' @ body \<and> length body = 40 \<and> list_all isHexDigit body"
    by blast
next
  assume "\<exists>body. a = ''0x'' @ body \<and> length body = 40 \<and> list_all isHexDigit body"
  then show "addressPattern a"
    by (auto simp: addressPattern_def)
qed

lemma cliAddresses_Nil: "cliAddresses w [] = []"
  by (simp add: cliAddresses_def)

lemma length_one_hd: "length xs = 1 \<Longrightarrow> xs = [hd xs]"
  by (cases xs) auto

lemma cli_exit_status:
  "(exitCode (cliMain w args) \<noteq> 0) =
     (validAddresses w args = []
      \<or> (\<exists>a e. validAddresses w args = [a]
                 \<and> checkDelegation w a (cliNetworkName w args) = Inl e))"
proof (cases "args = []")
  case True
  then show ?thesis by (simp add: cliMain_def validAddresses_def cliAddresses_Nil)
next
  case ne: False
  show ?thesis
  proof (cases "validAddresses w args = []")
    case True
    then show ?thesis using ne by (simp add: cliMain_def)
  next
    case nv: False
    show ?thesis
    proof (cases "length (validAddresses w args) = 1")
      case True
      then have one: "validAddresses w args = [hd (validAddresses w args)]"
        by (rule length_one_hd)
      have "(exitCode (cliMain w args) \<noteq> 0) =
              (\<exists>e. checkDelegation w (hd (validAddresses w args)) (cliNetworkName w args) = Inl e)"
        using ne nv True
        by (auto simp: cliMain_def displayDelegationInfo_def split: sum.splits js_error.splits)
      also have "\<dots> = (\<exists>a e. validAddresses w args = [a]
                 \<and> checkDelegation w a (cliNetworkName w args) = Inl e)"
        using one by (metis list.sel(1))
      finally show ?thesis using nv by simp
    next
      case False
      then have "\<And>a. validAddresses w args \<noteq> [a]" by auto
      then show ?thesis using ne nv False
        by (auto simp: cliMain_def split: prod.splits)
    qed
  qed
qed

lemma loop_errs:
  "snd (checkMultipleDelegations_loop w n addresses results errs) =
     errs @ concat (map (\<lambda>addr. case checkDelegation w addr n of
                                     Inr result \<Rightarrow> []
                                   | Inl (Error m) \<Rightarrow> [addr @ '': Error - '' @ m]) addresses)"
proof (induction addresses arbitrary: results errs)
  case Nil
  then show ?case by simp
next
  case (Cons a as)
  then show ?case
    by (simp split: sum.splits js_error.splits)
qed

lemma batch_errs:
  "snd (checkMultipleDelegations w addresses n) =
     concat (map (\<lambda>addr. case checkDelegation w addr n of
                            Inr result \<Rightarrow> []
                          | Inl (Error m) \<Rightarrow> [addr @ '': Error - '' @ m]) addresses)"
  by (simp add: checkMultipleDelegations_def loop_errs)

lemma cliNetworkName_args:
  "cliNetworkName w args =
     (if last args \<in> {''mainnet'', ''sepolia'', ''base'', ''baseSepolia''}
      then last args else ''mainnet'')"
  by (simp add: cliNetworkName_def isNetwork_def Object_keys_networks)

lemma cliAddresses_args:
  "cliAddresses w args =
     (if last args \<in> {''mainnet'', ''sepolia'', ''base'', ''baseSepolia''}
      then butlast args else args)"
  by (simp add: cliAddresses_def isNetwork_def Object_keys_networks)

lemma cli_usage: "cliMain w [] = \<lparr>exitCode = 1, stderr = []\<rparr>"
  by (simp add: cliMain_def)

lemma cli_none_valid:
  "args \<noteq> [] \<Longrightarrow> validAddresses w args = [] \<Longrightarrow>
     cliMain w args =
       \<lparr>exitCode = 1, stderr = invalidReports w args @ [''No valid addresses provided'']\<rparr>"
  by (simp add: cliMain_def)

lemma validAddresses_args_ne: "validAddresses w args \<noteq> [] \<Longrightarrow> args \<noteq> []"
  by (auto simp: validAddresses_def cliAddresses_Nil)

lemma cli_single_ok:
  "validAddresses w args = [a] \<Longrightarrow> checkDelegation w a (cliNetworkName w args) = Inr r \<Longrightarrow>
     cliMain w args = \<lparr>exitCode = 0, stderr = invalidReports w args\<rparr>"
  using validAddresses_args_ne [of w args]
  by (simp add: cliMain_def displayDelegationInfo_def)

lemma cli_single_fatal:
  "validAddresses w args = [a] \<Longrightarrow>
   checkDelegation w a (cliNetworkName w args) = Inl (Error m) \<Longrightarrow>
     cliMain w args =
       \<lparr>exitCode = 1,
        stderr = invalidReports w args
                 @ [[CHR 0x0A] @ ''Error: '' @ m, [CHR 0x0A] @ ''Fatal error: '' @ m]\<rparr>"
  using validAddresses_args_ne [of w args]
  by (simp add: cliMain_def displayDelegationInfo_def)

lemma cli_batch:
  assumes "2 \<le> length (validAddresses w args)"
  shows "cliMain w args =
       \<lparr>exitCode = 0,
        stderr = invalidReports w args
                 @ concat (map (\<lambda>addr. case checkDelegation w addr (cliNetworkName w args) of
                                          Inr result \<Rightarrow> []
                                        | Inl (Error m) \<Rightarrow> [addr @ '': Error - '' @ m])
                            (validAddresses w args))\<rparr>"
proof -
  have "validAddresses w args \<noteq> []" "length (validAddresses w args) \<noteq> 1"
    using assms by auto
  moreover from this(1) have "args \<noteq> []" by (rule validAddresses_args_ne)
  ultimately show ?thesis
    by (simp add: cliMain_def case_prod_beta batch_errs)
qed

text \<open>
  Claim C9. An argument passes validation exactly when it is \<^verbatim>\<open>0x\<close> followed by 40 hex
  digits. A last argument that is one of the four network names is the network and is
  taken off the address list; otherwise the network is \<^verbatim>\<open>mainnet\<close> and every argument is
  an address. The addresses checked are the ones that pass validation, and only those:
  the arguments that fail are reported, one \<^verbatim>\<open>Invalid address format\<close> line each in
  argument order, and reach no check. The outcome of the process is then fixed on every
  path: usage, no valid address, one valid address checked with or without a throw, and
  a batch, whose error lines are those of the valid addresses that fail. So the exit
  status is non-zero exactly when no valid address remains or the single valid address
  makes \<open>checkDelegation\<close> throw; in a batch it is 0 whatever happens to each address.
\<close>

theorem C9_cli_exit_status:
  "addressPattern a =
     (\<exists>body. a = ''0x'' @ body \<and> length body = 40 \<and> list_all isHexDigit body)
   \<and> cliNetworkName w args =
       (if last args \<in> {''mainnet'', ''sepolia'', ''base'', ''baseSepolia''}
        then last args else ''mainnet'')
   \<and> cliAddresses w args =
       (if last args \<in> {''mainnet'', ''sepolia'', ''base'', ''baseSepolia''}
        then butlast args else args)
   \<and> validAddresses w args = filter addressPattern (cliAddresses w args)
   \<and> invalidReports w args =
       map (\<lambda>x. ''Invalid address format: '' @ x)
         (filter (\<lambda>x. \<not> addressPattern x) (cliAddresses w args))
   \<and> (args = [] \<longrightarrow> cliMain w args = \<lparr>exitCode = 1, stderr = []\<rparr>)
   \<and> (args \<noteq> [] \<and> validAddresses w args = [] \<longrightarrow>
        cliMain w args =
          \<lparr>exitCode = 1,
           stderr = invalidReports w args @ [''No valid addresses provided'']\<rparr>)
   \<and> (\<forall>x r. validAddresses w args = [x]
               \<and> checkDelegation w x (cliNetworkName w args) = Inr r \<longrightarrow>
        cliMain w args = \<lparr>exitCode = 0, stderr = invalidReports w args\<rparr>)
   \<and> (\<forall>x m. validAddresses w args = [x]
               \<and> checkDelegation w x (cliNetworkName w args) = Inl (Error m) \<longrightarrow>
        cliMain w args =
          \<lparr>exitCode = 1,
           stderr = invalidReports w args
                    @ [[CHR 0x0A] @ ''Error: '' @ m, [CHR 0x0A] @ ''Fatal error: '' @ m]\<rparr>)
   \<and> (2 \<le> length (validAddresses w args) \<longrightarrow>
        cliMain w args =
          \<lparr>exitCode = 0,
           stderr = invalidReports w args
                    @ concat (map (\<lambda>x. case checkDelegation w x (cliNetworkName w args) of
                                         Inr r \<Rightarrow> []
                                       | Inl (Error m) \<Rightarrow> [x @ '': Error - '' @ m])
                               (validAddresses w args))\<rparr>)
   \<and> ((exitCode (cliMain w args) \<noteq> 0) =
        (validAddresses w args = []
         \<or> (\<exists>x e. validAddresses w args = [x]
                    \<and> checkDelegation w x (cliNetworkName w args) = Inl e)))"
proof -
  have 1: "addressPattern a =
     (\<exists>body. a = ''0x'' @ body \<and> length body = 40 \<and> list_all isHexDigit body)"
    by (rule addressPattern_iff)
  have 2: "validAddresses w args = filter addressPattern (cliAddresses w args)"
    by (simp add: validAddresses_def)
  have 3: "invalidReports w args =
       map (\<lambda>x. ''Invalid address format: '' @ x)
         (filter (\<lambda>x. \<not> addressPattern x) (cliAddresses w args))"
    by (simp add: invalidReports_def)
  have 4: "args = [] \<longrightarrow> cliMain w args = \<lparr>exitCode = 1, stderr = []\<rparr>"
    using cli_usage by blast
  have 5: "args \<noteq> [] \<and> validAddresses w args = [] \<longrightarrow>
        cliMain w args =
          \<lparr>exitCode = 1,
           stderr = invalidReports w args @ [''No valid addresses provided'']\<rparr>"
    using cli_none_valid by blast
  have 6: "\<forall>x r. validAddresses w args = [x]
               \<and> checkDelegation w x (cliNetworkName w args) = Inr r \<longrightarrow>
        cliMain w args = \<lparr>exitCode = 0, stderr = invalidReports w args\<rparr>"
    using cli_single_ok by blast
  have 7: "\<forall>x m. validAddresses w args = [x]
               \<and> checkDelegation w x (cliNetworkName w args) = Inl (Error m) \<longrightarrow>
        cliMain w args =
          \<lparr>exitCode = 1,
           stderr = invalidReports w args
                    @ [[CHR 0x0A] @ ''Error: '' @ m, [CHR 0x0A] @ ''Fatal error: '' @ m]\<rparr>"
    using cli_single_fatal by blast
  have 8: "2 \<le> length (validAddresses w args) \<longrightarrow>
        cliMain w args =
          \<lparr>exitCode = 0,
           stderr = invalidReports w args
                    @ concat (map (\<lambda>x. case checkDelegation w x (cliNetworkName w args) of
                                         Inr r \<Rightarrow> []
                                       | Inl (Error m) \<Rightarrow> [x @ '': Error - '' @ m])
                               (validAddresses w args))\<rparr>"
    using cli_batch by blast
  show ?thesis
    by (intro conjI 1 cliNetworkName_args cliAddresses_args 2 3 4 5 6 7 8 cli_exit_status)
qed

theorem C9_cli_exit_status_witness:
  "cliMain (nodeFailingAt ''0x742d35Cc6634C0532925a3b844Bc9e7595f0bEb'' ''timeout'' None)
     [''0x742d35Cc6634C0532925a3b844Bc9e7595f0bEb0'',
      ''0x742d35Cc6634C0532925a3b844Bc9e7595f0bEb'',
      ''0xd8da6bf26964af9d7eed9e03e53415d37aa96045''] =
     \<lparr>exitCode = 0,
      stderr = [''Invalid address format: 0x742d35Cc6634C0532925a3b844Bc9e7595f0bEb'']\<rparr>
   \<and> cliMain (nodeFailingAt ''0x742d35Cc6634C0532925a3b844Bc9e7595f0bEb0'' ''timeout'' None)
       [''0x742d35Cc6634C0532925a3b844Bc9e7595f0bEb0'',
        ''0x742d35Cc6634C0532925a3b844Bc9e7595f0bEb'',
        ''0xd8da6bf26964af9d7eed9e03e53415d37aa96045''] =
       \<lparr>exitCode = 0,
        stderr = [''Invalid address format: 0x742d35Cc6634C0532925a3b844Bc9e7595f0bEb'',
                  ''0x742d35Cc6634C0532925a3b844Bc9e7595f0bEb0: Error - Failed to check delegation: timeout'']\<rparr>
   \<and> cliMain (nodeFailingAt ''0x742d35Cc6634C0532925a3b844Bc9e7595f0bEb0'' ''timeout'' None)
       [''0x742d35Cc6634C0532925a3b844Bc9e7595f0bEb0''] =
       \<lparr>exitCode = 1,
        stderr = [[CHR 0x0A] @ ''Error: Failed to check delegation: timeout'',
                  [CHR 0x0A] @ ''Fatal error: Failed to check delegation: timeout'']\<rparr>
   \<and> cliMain (sepoliaDown None)
       [''0x742d35Cc6634C0532925a3b844Bc9e7595f0bEb0'', ''sepolia''] =
       \<lparr>exitCode = 1,
        stderr = [[CHR 0x0A] @ ''Error: sepolia is down'',
                  [CHR 0x0A] @ ''Fatal error: sepolia is down'']\<rparr>
   \<and> cliMain (sepoliaDown None)
       [''0x742d35Cc6634C0532925a3b844Bc9e7595f0bEb0'', ''zz''] =
       \<lparr>exitCode = 0, stderr = [''Invalid address format: zz'']\<rparr>"
proof -
  let ?a = "''0x742d35Cc6634C0532925a3b844Bc9e7595f0bEb0''"
  let ?b = "''0x742d35Cc6634C0532925a3b844Bc9e7595f0bEb''"
  let ?c = "''0xd8da6bf26964af9d7eed9e03e53415d37aa96045''"
  let ?w1 = "nodeFailingAt ?b ''timeout'' None"
  let ?w2 = "nodeFailingAt ?a ''timeout'' None"
  let ?w3 = "sepoliaDown None"
  let ?nc = "\<lambda>x. Inr \<lparr>isDelegated = False, address = x, network = ''mainnet'',
                        delegatedTo = None, code = None,
                        message = Some ''No code at address (EOA or no delegation)'',
                        error = None\<rparr> :: js_error + delegation_result"
  have pa: "addressPattern ?a" and pb: "\<not> addressPattern ?b" and pc: "addressPattern ?c"
    and pz: "\<not> addressPattern ''zz''"
    by (simp_all add: addressPattern_def isHexDigit_def)
  have ab: "?a \<noteq> ?b" and cb: "?c \<noteq> ?b" and ca: "?c \<noteq> ?a" by simp_all
  have r1a: "checkDelegation ?w1 ?a ''mainnet'' = ?nc ?a"
    by (rule checkDelegation_no_code [where c = None]) (simp_all add: chainRead_nodeFailingAt ab)
  have r1c: "checkDelegation ?w1 ?c ''mainnet'' = ?nc ?c"
    by (rule checkDelegation_no_code [where c = None]) (simp_all add: chainRead_nodeFailingAt cb)
  have r2c: "checkDelegation ?w2 ?c ''mainnet'' = ?nc ?c"
    by (rule checkDelegation_no_code [where c = None]) (simp_all add: chainRead_nodeFailingAt ca)
  have f2: "checkDelegation ?w2 ?a ''mainnet'' =
              Inl (Error ''Failed to check delegation: timeout'')"
    using checkDelegation_nodeFailingAt [of ?a "''timeout''" None] by simp
  have f3: "checkDelegation ?w3 ?a ''sepolia'' = Inl (Error ''sepolia is down'')"
    by (simp add: checkDelegation_def sepoliaDown_def getProperty_def networks_def)
  have r3: "checkDelegation ?w3 ?a ''mainnet'' = ?nc ?a"
    by (simp add: checkDelegation_def sepoliaDown_def getProperty_def networks_def)
  have 1: "cliMain ?w1 [?a, ?b, ?c] =
             \<lparr>exitCode = 0, stderr = [''Invalid address format: '' @ ?b]\<rparr>"
  proof -
    note t = C9_cli_exit_status [of ?a ?w1 "[?a, ?b, ?c]"]
    have n: "cliNetworkName ?w1 [?a, ?b, ?c] = ''mainnet''"
      using t [THEN conjunct2, THEN conjunct1] by simp
    have d: "cliAddresses ?w1 [?a, ?b, ?c] = [?a, ?b, ?c]"
      using t [THEN conjunct2, THEN conjunct2, THEN conjunct1] by simp
    have v: "validAddresses ?w1 [?a, ?b, ?c] = [?a, ?c]"
      using t [THEN conjunct2, THEN conjunct2, THEN conjunct2, THEN conjunct1]
      by (simp add: d pa pb pc pz)
    have i: "invalidReports ?w1 [?a, ?b, ?c] = [''Invalid address format: '' @ ?b]"
      using t [THEN conjunct2, THEN conjunct2, THEN conjunct2, THEN conjunct2, THEN conjunct1]
      by (simp add: d pa pb pc pz)
    show ?thesis
      using t [THEN conjunct2, THEN conjunct2, THEN conjunct2, THEN conjunct2, THEN conjunct2, THEN conjunct2, THEN conjunct2, THEN conjunct2, THEN conjunct2, THEN conjunct1]
      by (simp add: v i n r1a r1c)
  qed
  have 2: "cliMain ?w2 [?a, ?b, ?c] =
             \<lparr>exitCode = 0,
              stderr = [''Invalid address format: '' @ ?b,
                        ?a @ '': Error - Failed to check delegation: timeout'']\<rparr>"
  proof -
    note t = C9_cli_exit_status [of ?a ?w2 "[?a, ?b, ?c]"]
    have n: "cliNetworkName ?w2 [?a, ?b, ?c] = ''mainnet''"
      using t [THEN conjunct2, THEN conjunct1] by simp
    have d: "cliAddresses ?w2 [?a, ?b, ?c] = [?a, ?b, ?c]"
      using t [THEN conjunct2, THEN conjunct2, THEN conjunct1] by simp
    have v: "validAddresses ?w2 [?a, ?b, ?c] = [?a, ?c]"
      using t [THEN conjunct2, THEN conjunct2, THEN conjunct2, THEN conjunct1]
      by (simp add: d pa pb pc pz)
    have i: "invalidReports ?w2 [?a, ?b, ?c] = [''Invalid address format: '' @ ?b]"
      using t [THEN conjunct2, THEN conjunct2, THEN conjunct2, THEN conjunct2, THEN conjunct1]
      by (simp add: d pa pb pc pz)
    show ?thesis
      using t [THEN conjunct2, THEN conjunct2, THEN conjunct2, THEN conjunct2, THEN conjunct2, THEN conjunct2, THEN conjunct2, THEN conjunct2, THEN conjunct2, THEN conjunct1]
      by (simp add: v i n f2 r2c)
  qed
  have 3: "cliMain ?w2 [?a] =
             \<lparr>exitCode = 1,
              stderr = [[CHR 0x0A] @ ''Error: Failed to check delegation: timeout'',
                        [CHR 0x0A] @ ''Fatal error: Failed to check delegation: timeout'']\<rparr>"
  proof -
    note t = C9_cli_exit_status [of ?a ?w2 "[?a]"]
    have n: "cliNetworkName ?w2 [?a] = ''mainnet''"
      using t [THEN conjunct2, THEN conjunct1] by simp
    have d: "cliAddresses ?w2 [?a] = [?a]"
      using t [THEN conjunct2, THEN conjunct2, THEN conjunct1] by simp
    have v: "validAddresses ?w2 [?a] = [?a]"
      using t [THEN conjunct2, THEN conjunct2, THEN conjunct2, THEN conjunct1]
      by (simp add: d pa pb pc pz)
    have i: "invalidReports ?w2 [?a] = []"
      using t [THEN conjunct2, THEN conjunct2, THEN conjunct2, THEN conjunct2, THEN conjunct1]
      by (simp add: d pa pb pc pz)
    show ?thesis
      using t [THEN conjunct2, THEN conjunct2, THEN conjunct2, THEN conjunct2, THEN conjunct2, THEN conjunct2, THEN conjunct2, THEN conjunct2, THEN conjunct1]
      by (simp add: v i n f2)
  qed
  have 4: "cliMain ?w3 [?a, ''sepolia''] =
             \<lparr>exitCode = 1,
              stderr = [[CHR 0x0A] @ ''Error: sepolia is down'',
                        [CHR 0x0A] @ ''Fatal error: sepolia is down'']\<rparr>"
  proof -
    note t = C9_cli_exit_status [of ?a ?w3 "[?a, ''sepolia'']"]
    have n: "cliNetworkName ?w3 [?a, ''sepolia''] = ''sepolia''"
      using t [THEN conjunct2, THEN conjunct1] by simp
    have d: "cliAddresses ?w3 [?a, ''sepolia''] = [?a]"
      using t [THEN conjunct2, THEN conjunct2, THEN conjunct1] by simp
    have v: "validAddresses ?w3 [?a, ''sepolia''] = [?a]"
      using t [THEN conjunct2, THEN conjunct2, THEN conjunct2, THEN conjunct1]
      by (simp add: d pa pb pc pz)
    have i: "invalidReports ?w3 [?a, ''sepolia''] = []"
      using t [THEN conjunct2, THEN conjunct2, THEN conjunct2, THEN conjunct2, THEN conjunct1]
      by (simp add: d pa pb pc pz)
    show ?thesis
      using t [THEN conjunct2, THEN conjunct2, THEN conjunct2, THEN conjunct2, THEN conjunct2, THEN conjunct2, THEN conjunct2, THEN conjunct2, THEN conjunct1]
      by (simp add: v i n f3)
  qed
  have 5: "cliMain ?w3 [?a, ''zz''] =
             \<lparr>exitCode = 0, stderr = [''Invalid address format: zz'']\<rparr>"
  proof -
    note t = C9_cli_exit_status [of ?a ?w3 "[?a, ''zz'']"]
    have n: "cliNetworkName ?w3 [?a, ''zz''] = ''mainnet''"
      using t [THEN conjunct2, THEN conjunct1] by simp
    have d: "cliAddresses ?w3 [?a, ''zz''] = [?a, ''zz'']"
      using t [THEN conjunct2, THEN conjunct2, THEN conjunct1] by simp
    have v: "validAddresses ?w3 [?a, ''zz''] = [?a]"
      using t [THEN conjunct2, THEN conjunct2, THEN conjunct2, THEN conjunct1]
      by (simp add: d pa pb pc pz)
    have i: "invalidReports ?w3 [?a, ''zz''] = [''Invalid address format: zz'']"
      using t [THEN conjunct2, THEN conjunct2, THEN conjunct2, THEN conjunct2, THEN conjunct1]
      by (simp add: d pa pb pc pz)
    show ?thesis
      using t [THEN conjunct2, THEN conjunct2, THEN conjunct2, THEN conjunct2, THEN conjunct2, THEN conjunct2, THEN conjunct2, THEN conjunct1]
      by (simp add: v i n r3)
  qed
  from 1 2 3 4 5 show ?thesis by simp
qed

end
